theory Spec2Isabelle
  imports Main
begin

section \<open>Post objects and the attribute extractor (posts.py)\<close>

text \<open>
  A post object is the result of decoding JSON: nested dictionaries with string keys,
  lists, strings, integers, booleans and \<open>None\<close>. A dictionary keeps its items in
  insertion order, so it is an association list; \<open>map_of\<close> is the key lookup.
  Floating-point numbers do not occur in the modelled values.
\<close>

datatype jval =
    JNone
  | JBool bool
  | JInt int
  | JStr string
  | JList "jval list"
  | JDict "(string \<times> jval) list"

text \<open>The exceptions that \<open>get_post_attr\<close> can raise.\<close>

datatype error = AttributeError | AssertionError | TypeError

text \<open>
  \<open>obj.get(key, default)\<close>: only a dictionary has the method; on any other value
  the attribute lookup itself raises \<open>AttributeError\<close>. The default is used
  only when the key is missing.
\<close>

fun dict_get :: "jval \<Rightarrow> string \<Rightarrow> jval \<Rightarrow> error + jval" where
  "dict_get (JDict kvs) k d = Inr (case map_of kvs k of None \<Rightarrow> d | Some v \<Rightarrow> v)"
| "dict_get _ k d = Inl AttributeError"

lemma map_of_size: "map_of kvs k = Some v \<Longrightarrow> size v < size (JDict kvs)"
  by (induction kvs) (auto split: if_splits)

lemma map_of_nonempty_size: "map_of kvs k = Some v \<Longrightarrow> size (JDict []) < size (JDict kvs)"
  by (cases kvs) auto

text \<open>
  The loop of lines 31-32:
  \<^verbatim>\<open>
  while post_obj.get("__typename") == "TweetWithVisibilityResults":
      post_obj = post_obj.get("tweet", {})
  \<close>
  Each round descends into a value stored in the current dictionary (or into the empty
  dictionary), so the loop ends; a non-dictionary value met on the way raises.
\<close>

function unwrap :: "jval \<Rightarrow> error + jval" where
  "unwrap post_obj =
     (case dict_get post_obj ''__typename'' JNone of
        Inl e \<Rightarrow> Inl e
      | Inr t \<Rightarrow>
          if t = JStr ''TweetWithVisibilityResults''
          then (case dict_get post_obj ''tweet'' (JDict []) of
                  Inl e \<Rightarrow> Inl e
                | Inr inner \<Rightarrow> unwrap inner)
          else Inr post_obj)"
  by pat_completeness auto
termination
proof (relation "measure size")
  show "wf (measure size)" by simp
next
  fix post_obj :: jval and t inner :: jval
  assume t: "dict_get post_obj ''__typename'' JNone = Inr t"
    and w: "t = JStr ''TweetWithVisibilityResults''"
    and i: "dict_get post_obj ''tweet'' (JDict []) = Inr inner"
  show "(inner, post_obj) \<in> measure size"
  proof (cases post_obj)
    case (JDict kvs)
    with t w have ty: "map_of kvs ''__typename'' = Some (JStr ''TweetWithVisibilityResults'')"
      by (auto split: option.splits)
    show ?thesis
    proof (cases "map_of kvs ''tweet''")
      case None
      with i JDict have "inner = JDict []" by simp
      with ty JDict show ?thesis using map_of_nonempty_size [OF ty] by simp
    next
      case (Some v)
      with i JDict have "inner = v" by simp
      with Some JDict show ?thesis using map_of_size [OF Some] by simp
    qed
  qed (use t in simp_all)
qed

declare unwrap.simps [simp del]

text \<open>
  \<open>_path.split(".")\<close>: the pieces between the separators; an empty string gives one
  empty piece, and two adjacent separators give an empty piece between them.
\<close>

fun str_split :: "char \<Rightarrow> string \<Rightarrow> string list" where
  "str_split sep [] = [[]]"
| "str_split sep (c # cs) =
     (if c = sep then [] # str_split sep cs
      else (case str_split sep cs of
              [] \<Rightarrow> [[c]]
            | w # ws \<Rightarrow> (c # w) # ws))"

text \<open>
  The inner loop of lines 40-42: \<open>_cursor = _cursor.get(_part, {})\<close> for each part
  of the path, starting at the post object.
\<close>

fun walk :: "jval \<Rightarrow> string list \<Rightarrow> error + jval" where
  "walk cursor [] = Inr cursor"
| "walk cursor (part # parts) =
     (case dict_get cursor part (JDict []) of
        Inl e \<Rightarrow> Inl e
      | Inr c \<Rightarrow> walk c parts)"

fun is_dict :: "jval \<Rightarrow> bool" where
  "is_dict (JDict kvs) = True"
| "is_dict _ = False"

text \<open>
  The outer loop of lines 38-44 over the candidate paths of the attribute, with the list
  \<open>_values\<close> as accumulator: a final cursor that is not a dictionary is appended.
\<close>

fun collect :: "jval \<Rightarrow> string list \<Rightarrow> jval list \<Rightarrow> error + jval list" where
  "collect post_obj [] values = Inr values"
| "collect post_obj (path # paths) values =
     (case walk post_obj (str_split CHR ''.'' path) of
        Inl e \<Rightarrow> Inl e
      | Inr cursor \<Rightarrow>
          collect post_obj paths (if is_dict cursor then values else values @ [cursor]))"

text \<open>
  \<open>set(_values)\<close> hashes every value: a list is unhashable and raises
  \<open>TypeError\<close>. Among the hashable values \<open>True\<close> equals \<open>1\<close> and
  \<open>False\<close> equals \<open>0\<close>, so they fall together in the set.
\<close>

fun hashable :: "jval \<Rightarrow> bool" where
  "hashable (JList xs) = False"
| "hashable (JDict kvs) = False"
| "hashable _ = True"

fun set_key :: "jval \<Rightarrow> jval" where
  "set_key (JBool b) = JInt (if b then 1 else 0)"
| "set_key v = v"

definition len_set :: "jval list \<Rightarrow> nat" where
  "len_set values = length (remdups (map set_key values))"

text \<open>The message of the warning of line 34 (the misspelling is the source's).\<close>

definition unknown_attr_warning :: "string \<Rightarrow> string" where
  "unknown_attr_warning attr =
     ''Unkown attr '' @ [CHR 0x27] @ attr @ [CHR 0x27] @ ''; skipping extraction.''"

text \<open>
  Lines 46-51, once the values are collected: nothing collected returns \<open>None\<close>;
  otherwise the set is built, the assertion checks that it has one element, and the
  first value is returned.
\<close>

definition agree :: "jval list \<Rightarrow> error + jval" where
  "agree values =
     (if values = [] then Inr JNone
      else if \<not> list_all hashable values then Inl TypeError
      else if len_set values \<noteq> 1 then Inl AssertionError
      else Inr (hd values))"

text \<open>
  \<open>get_post_attr(post_obj, attr, post_attr_paths)\<close>. The result pairs the warnings
  passed to \<open>logging.warning\<close> with the outcome: \<open>Inl\<close> the exception raised,
  \<open>Inr\<close> the value returned (\<open>JNone\<close> for \<open>None\<close>). The path table is a
  dictionary from attribute names to lists of dotted paths.
\<close>

definition get_post_attr ::
  "jval \<Rightarrow> string \<Rightarrow> (string \<times> string list) list \<Rightarrow> string list \<times> (error + jval)" where
  "get_post_attr post_obj attr post_attr_paths =
     (if attr = ''__typename'' then ([], dict_get post_obj ''__typename'' JNone)
      else
        (case unwrap post_obj of
           Inl e \<Rightarrow> ([], Inl e)
         | Inr post \<Rightarrow>
             (case map_of post_attr_paths attr of
                None \<Rightarrow> ([unknown_attr_warning attr], Inr JNone)
              | Some paths \<Rightarrow>
                  (case collect post paths [] of
                     Inl e \<Rightarrow> ([], Inl e)
                   | Inr values \<Rightarrow> ([], agree values)))))"

text \<open>
  Follows the spec's words ("wrapped one or more levels in the envelope"): the object
  found below \<open>n\<close> levels of the wrapper, each level a dictionary whose
  \<open>__typename\<close> is \<open>TweetWithVisibilityResults\<close> and whose \<open>tweet\<close> holds the
  next level; \<open>None\<close> when the object is not wrapped that deep.
\<close>

fun enveloped :: "nat \<Rightarrow> jval \<Rightarrow> jval option" where
  "enveloped 0 post_obj = Some post_obj"
| "enveloped (Suc n) (JDict kvs) =
     (if map_of kvs ''__typename'' = Some (JStr ''TweetWithVisibilityResults'')
      then (case map_of kvs ''tweet'' of None \<Rightarrow> None | Some inner \<Rightarrow> enveloped n inner)
      else None)"
| "enveloped (Suc n) _ = None"

text \<open>The posts and path tables of the examples.\<close>

definition text_paths :: "(string \<times> string list) list" where
  "text_paths = [(''text'', [''note_tweet.note_tweet_results.result.text'', ''legacy.full_text''])]"

definition note_post :: jval where
  "note_post = JDict
     [(''__typename'', JStr ''Tweet''),
      (''note_tweet'', JDict [(''note_tweet_results'',
          JDict [(''result'', JDict [(''text'', JStr ''a long note, in full'')])])]),
      (''legacy'', JDict [(''full_text'', JStr ''a long note, in'')])]"

definition legacy_post :: jval where
  "legacy_post = JDict [(''legacy'', JDict [(''full_text'', JStr ''hello'')])]"

definition wrapped_post :: jval where
  "wrapped_post = JDict
     [(''__typename'', JStr ''TweetWithVisibilityResults''),
      (''tweet'', JDict [(''legacy'', JDict [(''full_text'', JStr ''hi'')])])]"

definition broken_wrapper :: jval where
  "broken_wrapper = JDict
     [(''__typename'', JStr ''TweetWithVisibilityResults''), (''tweet'', JInt 5)]"

section \<open>The email alert handler (mail.py)\<close>

text \<open>
  The names are the source's; a method whose name starts with an underscore is written
  without it (\<open>_send_batch\<close> is \<open>send_batch\<close>), and the constructor carries the
  name of its class.
\<close>

subsection \<open>Strings\<close>

text \<open>\<open>sep.join(items)\<close>.\<close>

fun join :: "string \<Rightarrow> string list \<Rightarrow> string" where
  "join sep [] = []"
| "join sep [x] = x"
| "join sep (x # y # ys) = x @ sep @ join sep (y # ys)"

text \<open>\<open>str(n)\<close> for a natural number: its decimal digits.\<close>

fun str_nat :: "nat \<Rightarrow> string" where
  "str_nat n =
     (if n < 10 then [''0123456789'' ! n]
      else str_nat (n div 10) @ [''0123456789'' ! (n mod 10)])"

declare str_nat.simps [simp del]

text \<open>
  \<open>text.replace(old, new)\<close>: every occurrence of \<open>old\<close>, found from the left and
  without overlap, is replaced; an empty \<open>old\<close> matches before every character and at
  the end.
\<close>

function str_replace :: "string \<Rightarrow> string \<Rightarrow> string \<Rightarrow> string" where
  "str_replace old new text =
     (if old = [] then new @ concat (map (\<lambda>c. c # new) text)
      else if text = [] then []
      else if take (length old) text = old
        then new @ str_replace old new (drop (length old) text)
      else hd text # str_replace old new (tl text))"
  by pat_completeness auto
termination
  by (relation "measure (\<lambda>(old, new, text). length text)") auto

declare str_replace.simps [simp del]

text \<open>\<open>text.strip()\<close>: leading and trailing whitespace removed.\<close>

definition isspace :: "char \<Rightarrow> bool" where
  "isspace c = (of_char c \<in> {9, 10, 11, 12, 13, 28, 29, 30, 31, 32, 133, 160 :: nat})"

definition strip :: "string \<Rightarrow> string" where
  "strip text = rev (dropWhile isspace (rev (dropWhile isspace text)))"

text \<open>Line feed, and the text of a template given line by line.\<close>

definition NL :: string where
  "NL = [CHR 0x0A]"

subsection \<open>Sending one HTML alert\<close>

text \<open>
  An exception is an instance of \<open>Exception\<close> with the text that \<open>str\<close> gives it, or
  one of the others below \<open>BaseException\<close>, which \<open>except Exception\<close> lets through.
\<close>

datatype exn = Exception string | NonException string

text \<open>The recipient argument: one address, or a list of addresses.\<close>

datatype recipients = Single string | Several "string list"

text \<open>
  The message built by \<open>send_html_alert\<close>: a multipart/alternative message with its
  three headers and one HTML part.
\<close>

record message =
  msg_subject :: string
  msg_from :: string
  msg_to :: string
  msg_html :: string

text \<open>
  What the code takes from outside, as parameters: reading the text of a file below the
  home directory (\<open>Inl\<close> the exception raised), the SMTP session of lines 61-64 with
  server, port, login name, password and message (\<open>Some\<close> the exception raised, if
  any), and the formatting of a timestamp in local time.
\<close>

record env =
  read_text :: "string \<Rightarrow> exn + string"
  smtp_session :: "string \<Rightarrow> nat \<Rightarrow> string \<Rightarrow> string \<Rightarrow> message \<Rightarrow> exn option"
  format_time :: "int \<Rightarrow> string"

text \<open>
  What a send can change: the messages delivered to the server, and the text written to
  the standard output and to the standard error stream.
\<close>

record world =
  outbox :: "message list"
  stdout :: string
  stderr :: string

definition send_html_alert ::
  "env \<Rightarrow> string \<Rightarrow> recipients \<Rightarrow> string \<Rightarrow> string \<Rightarrow> string \<Rightarrow> string \<Rightarrow> nat
     \<Rightarrow> world \<Rightarrow> world \<times> exn option" where
  "send_html_alert e from_addr to_addr subject html_body pwdfile smtp_server smtp_port w =
     (case read_text e pwdfile of
        Inl x \<Rightarrow> (w, Some x)
      | Inr text \<Rightarrow>
          let pwd = strip text;
              msg = \<lparr>msg_subject = subject,
                     msg_from = from_addr,
                     msg_to = (case to_addr of Single a \<Rightarrow> a | Several as \<Rightarrow> join '', '' as),
                     msg_html = html_body\<rparr>
          in (case smtp_session e smtp_server smtp_port from_addr pwd msg of
                Some x \<Rightarrow> (w, Some x)
              | None \<Rightarrow> (w\<lparr>outbox := outbox w @ [msg]\<rparr>, None)))"

subsection \<open>Log records and their HTML\<close>

text \<open>
  The fields of a log record that the handler reads. \<open>message\<close> is what
  \<open>getMessage()\<close> returns, \<open>created\<close> the timestamp in whole seconds, and
  \<open>exc_text\<close> the joined lines of \<open>traceback.format_exception\<close> when
  \<open>exc_info\<close> is set.
\<close>

record log_record =
  levelname :: string
  message :: string
  created :: int
  pathname :: string
  lineno :: nat
  funcName :: string
  exc_text :: "string option"

text \<open>\<open>_escape_html\<close>, lines 229-236: five replacements, one after the other.\<close>

definition escape_html :: "string \<Rightarrow> string" where
  "escape_html text =
     str_replace [CHR 0x27] ''&#39;''
       (str_replace [CHR 0x22] ''&quot;''
         (str_replace ''>'' ''&gt;''
           (str_replace ''<'' ''&lt;''
             (str_replace ''&'' ''&amp;'' text))))"

text \<open>The opening and the closing of the page, lines 161-181 and 217-220.\<close>

definition html_head :: string where
  "html_head = join NL
    ['''',
     ''        <!DOCTYPE html>'',
     ''        <html>'',
     ''        <head>'',
     ''            <style>'',
     ''                body { font-family: Arial, sans-serif; line-height: 1.6; color: #333; }'',
     ''                .error-container { margin: 20px 0; padding: 15px; border-left: 4px solid #d32f2f; background: #ffebee; }'',
     ''                .critical-container { margin: 20px 0; padding: 15px; border-left: 4px solid #b71c1c; background: #ffcdd2; }'',
     ''                .error-header { font-weight: bold; color: #d32f2f; margin-bottom: 10px; }'',
     ''                .critical-header { font-weight: bold; color: #b71c1c; margin-bottom: 10px; }'',
     ''                .error-time { color: #666; font-size: 0.9em; }'',
     ''                .error-location { color: #666; font-size: 0.9em; margin: 5px 0; }'',
     ''                .error-message { margin: 10px 0; padding: 10px; background: white; border-radius: 4px; }'',
     ''                .stacktrace { background: #263238; color: #aed581; padding: 15px; border-radius: 4px;'',
     ''                             overflow-x: auto; font-family: 'Courier New', monospace; font-size: 0.85em;'',
     ''                             white-space: pre-wrap; word-wrap: break-word; }'',
     ''                .summary { background: #e3f2fd; padding: 15px; border-radius: 4px; margin-bottom: 20px; }'',
     ''            </style>'',
     ''        </head>'',
     ''        <body>'',
     ''        '']"

definition html_tail :: string where
  "html_tail = join NL
    ['''',
     ''        </body>'',
     ''        </html>'',
     ''        '']"

text \<open>The summary of a batch of several records, lines 184-189.\<close>

definition summary_html :: "env \<Rightarrow> log_record list \<Rightarrow> string" where
  "summary_html e records = join NL
    ['''',
     ''            <div class=\"summary\">'',
     ''                <strong>Summary:</strong> '' @ str_nat (length records) @ '' error(s) occurred<br>'',
     ''                <strong>Time Range:</strong> '' @ format_time e (created (hd records))
         @ '' - '' @ format_time e (created (last records)),
     ''            </div>'',
     ''            '']"

text \<open>The stack trace of a record that has one, lines 207-213.\<close>

definition stack_trace_html :: "string \<Rightarrow> string" where
  "stack_trace_html text = join NL
    ['''',
     ''                <div class=\"error-message\">'',
     ''                    <strong>Stack Trace:</strong>'',
     ''                    <div class=\"stacktrace\">'' @ escape_html text @ ''</div>'',
     ''                </div>'',
     ''                '']"

text \<open>
  The block of one record, lines 192-215; \<open>i\<close> is its number in the batch, counted
  from one.
\<close>

definition record_html :: "env \<Rightarrow> log_record list \<Rightarrow> nat \<Rightarrow> log_record \<Rightarrow> string" where
  "record_html e records i record =
     (let container_class =
            (if levelname record = ''CRITICAL'' then ''critical-container'' else ''error-container'');
          header_class =
            (if levelname record = ''CRITICAL'' then ''critical-header'' else ''error-header'')
      in join NL
           ['''',
            ''            <div class=\"'' @ container_class @ ''\">'',
            ''                <div class=\"'' @ header_class @ ''\">'',
            ''                    ''
              @ (if 1 < length records then ''Error '' @ str_nat i @ '' - '' else [])
              @ levelname record @ '': '' @ message record,
            ''                </div>'',
            ''                <div class=\"error-time\">Time: '' @ format_time e (created record) @ ''</div>'',
            ''                <div class=\"error-location\">'',
            ''                    Location: '' @ pathname record @ '':'' @ str_nat (lineno record)
              @ '' in '' @ funcName record @ ''()'',
            ''                </div>'',
            ''            '']
         @ (case exc_text record of None \<Rightarrow> [] | Some text \<Rightarrow> stack_trace_html text)
         @ ''</div>'')"

text \<open>The loop of line 191 over \<open>enumerate(records, 1)\<close>.\<close>

fun records_html :: "env \<Rightarrow> log_record list \<Rightarrow> nat \<Rightarrow> log_record list \<Rightarrow> string" where
  "records_html e records i [] = []"
| "records_html e records i (record # rest) =
     record_html e records i record @ records_html e records (Suc i) rest"

definition format_html_batch :: "env \<Rightarrow> log_record list \<Rightarrow> string" where
  "format_html_batch e records =
     html_head
     @ (if 1 < length records then summary_html e records else [])
     @ records_html e records 1 records
     @ html_tail"

subsection \<open>The handler\<close>

text \<open>
  A thread started by the handler: the batch it was given and its \<open>daemon\<close> flag.
\<close>

record sender =
  batch :: "log_record list"
  daemon :: bool

text \<open>
  What a call does to the lock and to threads, in program order: taking and releasing
  \<open>batch_lock\<close>, starting a sender thread, and \<open>thread.join(timeout=30)\<close>.
\<close>

datatype event = LockAcquire | LockRelease | ThreadStart | ThreadJoin

text \<open>
  The handler object: the constructor's arguments, the queue, the lock (held or free), the
  sender threads started so far and the events so far. \<open>max_batch_size\<close> is
  \<open>None\<close> or an integer.
\<close>

record handler =
  from_addr :: string
  to_addr :: recipients
  subject_prefix :: string
  pwdfile :: string
  smtp_server :: string
  smtp_port :: nat
  max_batch_size :: "int option"
  error_queue :: "log_record list"
  batch_lock :: bool
  threads :: "sender list"
  events :: "event list"

text \<open>\<open>__init__\<close>, lines 80-96: an empty queue and a free lock.\<close>

definition EmailHandler ::
  "string \<Rightarrow> recipients \<Rightarrow> string \<Rightarrow> string \<Rightarrow> string \<Rightarrow> nat \<Rightarrow> int option \<Rightarrow> handler" where
  "EmailHandler from_a to_a prefix pwd server port max_size =
     \<lparr>from_addr = from_a, to_addr = to_a, subject_prefix = prefix, pwdfile = pwd,
      smtp_server = server, smtp_port = port, max_batch_size = max_size,
      error_queue = [], batch_lock = False, threads = [], events = []\<rparr>"

text \<open>
  A call either returns, with the handler as it then is, or blocks: it waits for a lock
  that is never released, and the handler stays as it is at that point.
\<close>

datatype 'a outcome = Returns (state_of: 'a) | Blocks (state_of: 'a)

text \<open>
  Entering and leaving \<open>with self.batch_lock\<close>. The lock is a \<open>threading.Lock\<close>,
  which is not reentrant: taking it while it is held waits until it is released, also
  when the holder is the caller itself.
\<close>

definition acquire :: "handler \<Rightarrow> handler outcome" where
  "acquire h =
     (if batch_lock h then Blocks h
      else Returns (h\<lparr>batch_lock := True, events := events h @ [LockAcquire]\<rparr>))"

definition release :: "handler \<Rightarrow> handler" where
  "release h = h\<lparr>batch_lock := False, events := events h @ [LockRelease]\<rparr>"

text \<open>\<open>_send_batch(wait)\<close>, lines 110-134.\<close>

definition send_batch :: "handler \<Rightarrow> bool \<Rightarrow> handler outcome" where
  "send_batch h wait =
     (case acquire h of
        Blocks b \<Rightarrow> Blocks b
      | Returns h1 \<Rightarrow>
          if error_queue h1 = [] then Returns (release h1)
          else
            let records = error_queue h1;
                h2 = h1\<lparr>error_queue := []\<rparr>;
                h3 = h2\<lparr>threads := threads h2 @ [\<lparr>batch = records, daemon = \<not> wait\<rparr>],
                        events := events h2 @ [ThreadStart]\<rparr>;
                h4 = (if wait then h3\<lparr>events := events h3 @ [ThreadJoin]\<rparr> else h3)
            in Returns (release h4))"

text \<open>
  The test of line 105: \<open>self.max_batch_size and len(self.error_queue) >=
  self.max_batch_size\<close>; \<open>None\<close> and \<open>0\<close> count as false.
\<close>

definition limit_reached :: "handler \<Rightarrow> bool" where
  "limit_reached h =
     (case max_batch_size h of
        None \<Rightarrow> False
      | Some m \<Rightarrow> m \<noteq> 0 \<and> m \<le> int (length (error_queue h)))"

text \<open>
  \<open>emit(record)\<close>, lines 98-108. Nothing in the body raises here, so the handler of
  line 107 is never entered.
\<close>

definition emit :: "handler \<Rightarrow> log_record \<Rightarrow> handler outcome" where
  "emit h record =
     (case acquire h of
        Blocks b \<Rightarrow> Blocks b
      | Returns h1 \<Rightarrow>
          let h2 = h1\<lparr>error_queue := error_queue h1 @ [record]\<rparr>
          in if limit_reached h2
             then (case send_batch h2 False of
                     Blocks b \<Rightarrow> Blocks b
                   | Returns h3 \<Rightarrow> Returns (release h3))
             else Returns (release h2))"

text \<open>\<open>flush()\<close>, lines 238-241, and \<open>close()\<close>, which flushes.\<close>

definition flush :: "handler \<Rightarrow> handler outcome" where
  "flush h = (if error_queue h \<noteq> [] then send_batch h True else Returns h)"

definition close :: "handler \<Rightarrow> handler outcome" where
  "close h = flush h"

text \<open>
  \<open>_send_email_batch(records)\<close>, lines 136-157, the target of a sender thread. The
  result is the world after it and the exception that leaves it, if any.
\<close>

definition send_email_batch ::
  "env \<Rightarrow> handler \<Rightarrow> log_record list \<Rightarrow> world \<Rightarrow> world \<times> exn option" where
  "send_email_batch e h records w =
     (let subject =
            (if length records = 1
             then subject_prefix h @ '' '' @ levelname (hd records) @ '': '' @ message (hd records)
             else subject_prefix h @ '' '' @ str_nat (length records) @ '' errors occurred'');
          html_body = format_html_batch e records
      in (case send_html_alert e (from_addr h) (to_addr h) subject html_body
                 (pwdfile h) (smtp_server h) (smtp_port h) w of
            (w', None) \<Rightarrow> (w', None)
          | (w', Some (Exception text)) \<Rightarrow>
              (w'\<lparr>stdout := stdout w' @ ''EmailHandler failed to send: '' @ text @ NL\<rparr>, None)
          | (w', Some (NonException text)) \<Rightarrow> (w', Some (NonException text))))"

subsection \<open>Sequences of calls, and the notions the properties are stated with\<close>

text \<open>
  The calls made on a handler, one after the other; a call that blocks is the last one
  made.
\<close>

datatype call = Emit log_record | Flush | Close

fun calls :: "handler \<Rightarrow> call list \<Rightarrow> handler outcome" where
  "calls h [] = Returns h"
| "calls h (c # cs) =
     (case (case c of Emit r \<Rightarrow> emit h r | Flush \<Rightarrow> flush h | Close \<Rightarrow> close h) of
        Blocks b \<Rightarrow> Blocks b
      | Returns h' \<Rightarrow> calls h' cs)"

fun emits :: "handler \<Rightarrow> log_record list \<Rightarrow> handler outcome" where
  "emits h [] = Returns h"
| "emits h (record # rest) =
     (case emit h record of
        Blocks b \<Rightarrow> Blocks b
      | Returns h' \<Rightarrow> emits h' rest)"

text \<open>The records passed to \<open>emit\<close> by a list of calls, in order.\<close>

fun emitted :: "call list \<Rightarrow> log_record list" where
  "emitted [] = []"
| "emitted (Emit r # cs) = r # emitted cs"
| "emitted (c # cs) = emitted cs"

text \<open>The records handed to sender threads so far, batch after batch.\<close>

definition dispatched :: "handler \<Rightarrow> log_record list" where
  "dispatched h = concat (map batch (threads h))"

text \<open>
  The spec's words "the lock is held while a wait on the in-flight send is in progress",
  read off a list of events: some \<open>ThreadJoin\<close> comes after a \<open>LockAcquire\<close> and
  before the next \<open>LockRelease\<close>. The first argument says whether the lock is held at
  the start.
\<close>

fun join_under_lock :: "bool \<Rightarrow> event list \<Rightarrow> bool" where
  "join_under_lock held [] = False"
| "join_under_lock held (LockAcquire # es) = join_under_lock True es"
| "join_under_lock held (LockRelease # es) = join_under_lock False es"
| "join_under_lock held (ThreadStart # es) = join_under_lock held es"
| "join_under_lock held (ThreadJoin # es) = (held \<or> join_under_lock held es)"

text \<open>
  The spec's words "round-trips" and "invertible by unescaping": the decoding of the five
  entities, every other character kept.
\<close>

fun unescape_html :: "string \<Rightarrow> string" where
  "unescape_html [] = []"
| "unescape_html (c # cs) =
     (if take 5 (c # cs) = ''&amp;'' then CHR ''&'' # unescape_html (drop 4 cs)
      else if take 4 (c # cs) = ''&lt;'' then CHR ''<'' # unescape_html (drop 3 cs)
      else if take 4 (c # cs) = ''&gt;'' then CHR ''>'' # unescape_html (drop 3 cs)
      else if take 6 (c # cs) = ''&quot;'' then CHR 0x22 # unescape_html (drop 5 cs)
      else if take 5 (c # cs) = ''&#39;'' then CHR 0x27 # unescape_html (drop 4 cs)
      else c # unescape_html cs)"

text \<open>What the five replacements together make of one character.\<close>

definition entity :: "char \<Rightarrow> string" where
  "entity c =
     (if c = CHR ''&'' then ''&amp;''
      else if c = CHR ''<'' then ''&lt;''
      else if c = CHR ''>'' then ''&gt;''
      else if c = CHR 0x22 then ''&quot;''
      else if c = CHR 0x27 then ''&#39;''
      else [c])"

text \<open>A handler, three records, a mail server that refuses, and a world to run in.\<close>

definition alert_handler :: "int option \<Rightarrow> handler" where
  "alert_handler max_size =
     EmailHandler ''ops@example.org'' (Single ''oncall@example.org'') ''[ALERT]''
       ''.mailpwd'' ''smtp.example.org'' 587 max_size"

definition rec1 :: log_record where
  "rec1 = \<lparr>levelname = ''ERROR'', message = ''disk full'', created = 1700000000,
            pathname = ''/srv/job.py'', lineno = 42, funcName = ''run'', exc_text = None\<rparr>"

definition rec2 :: log_record where
  "rec2 = \<lparr>levelname = ''CRITICAL'', message = ''giving up'', created = 1700000005,
            pathname = ''/srv/job.py'', lineno = 57, funcName = ''run'',
            exc_text = Some ''ValueError: <script>''\<rparr>"

definition rec3 :: log_record where
  "rec3 = \<lparr>levelname = ''ERROR'', message = ''retry failed'', created = 1700000009,
            pathname = ''/srv/job.py'', lineno = 61, funcName = ''retry'', exc_text = None\<rparr>"

definition refusing_env :: env where
  "refusing_env =
     \<lparr>read_text = (\<lambda>path. Inr (''secret'' @ NL)),
      smtp_session = (\<lambda>server port user pwd msg. Some (Exception ''Connection refused'')),
      format_time = (\<lambda>t. ''2023-11-14 22:13:20'')\<rparr>"

definition quiet_world :: world where
  "quiet_world = \<lparr>outbox = [], stdout = [], stderr = []\<rparr>"

section \<open>Properties of the extractor\<close>

lemma unwrap_wrapper:
  assumes "map_of kvs ''__typename'' = Some (JStr ''TweetWithVisibilityResults'')"
    and "map_of kvs ''tweet'' = Some inner"
  shows "unwrap (JDict kvs) = unwrap inner"
  using assms by (subst unwrap.simps) simp

lemma unwrap_plain:
  assumes "map_of kvs ''__typename'' \<noteq> Some (JStr ''TweetWithVisibilityResults'')"
  shows "unwrap (JDict kvs) = Inr (JDict kvs)"
  using assms by (subst unwrap.simps) (simp split: option.splits)

lemma unwrap_enveloped: "enveloped n post_obj = Some inner \<Longrightarrow> unwrap post_obj = unwrap inner"
proof (induction n post_obj rule: enveloped.induct)
  case (2 n kvs)
  then show ?case
    by (auto split: if_splits option.splits simp: unwrap_wrapper)
qed simp_all

lemma walk_scalar_intermediate:
  assumes "map_of kvs a = Some v" and "\<not> is_dict v"
  shows "walk (JDict kvs) (a # b # parts) = Inl AttributeError"
  using assms by (cases v) simp_all

text \<open>
  Whatever the attribute (other than the type discriminator), candidate values that are
  hashable and do not all fall together make the assertion of line 49 fail.
\<close>

lemma conflict_asserts:
  assumes "attr \<noteq> ''__typename''" and "unwrap post_obj = Inr post"
    and "map_of post_attr_paths attr = Some paths"
    and "collect post paths [] = Inr values"
    and "list_all hashable values" and "1 < len_set values"
  shows "get_post_attr post_obj attr post_attr_paths = ([], Inl AssertionError)"
proof -
  from assms(6) have "values \<noteq> []" by (auto simp: len_set_def)
  with assms show ?thesis by (simp add: get_post_attr_def agree_def)
qed

text \<open>
  C1. The spec and the docstring let the candidates of \<open>text\<close> disagree. The code
  makes no exception: on a post whose note text and legacy text are both present and differ,
  requesting \<open>text\<close> fails the assertion like any other attribute.
\<close>

theorem text_conflict_asserts:
  "get_post_attr note_post ''text'' text_paths = ([], Inl AssertionError)"
  by code_simp

text \<open>
  C6. An object wrapped \<open>n\<close> levels deep in the envelope resolves every attribute other
  than the type discriminator as the object inside does. The wrapped post with
  \<open>tweet.legacy.full_text = "hi"\<close> gives \<open>"hi"\<close> for \<open>text\<close>, and the two-candidate
  table gives \<open>"hello"\<close> on the post that has only \<open>legacy.full_text\<close>.
\<close>

theorem unwraps_before_lookup:
  "(attr \<noteq> ''__typename'' \<and> enveloped n post_obj = Some inner \<longrightarrow>
      get_post_attr post_obj attr post_attr_paths = get_post_attr inner attr post_attr_paths)
   \<and> get_post_attr wrapped_post ''text'' [(''text'', [''legacy.full_text''])] = ([], Inr (JStr ''hi''))
   \<and> get_post_attr legacy_post ''text'' text_paths = ([], Inr (JStr ''hello''))"
proof (intro conjI impI)
  assume "attr \<noteq> ''__typename'' \<and> enveloped n post_obj = Some inner"
  then show "get_post_attr post_obj attr post_attr_paths = get_post_attr inner attr post_attr_paths"
    by (simp add: get_post_attr_def unwrap_enveloped [of n post_obj inner])
next
  show "get_post_attr wrapped_post ''text'' [(''text'', [''legacy.full_text''])] = ([], Inr (JStr ''hi''))"
    by code_simp
next
  show "get_post_attr legacy_post ''text'' text_paths = ([], Inr (JStr ''hello''))"
    by code_simp
qed

theorem unwraps_before_lookup_witness:
  "''text'' \<noteq> ''__typename''
   \<and> enveloped 1 wrapped_post = Some (JDict [(''legacy'', JDict [(''full_text'', JStr ''hi'')])])
   \<and> get_post_attr wrapped_post ''text'' text_paths
       = get_post_attr (JDict [(''legacy'', JDict [(''full_text'', JStr ''hi'')])]) ''text'' text_paths
   \<and> get_post_attr wrapped_post ''text'' text_paths = ([], Inr (JStr ''hi''))"
proof -
  have e: "enveloped 1 wrapped_post = Some (JDict [(''legacy'', JDict [(''full_text'', JStr ''hi'')])])"
    by (simp add: wrapped_post_def)
  have v: "get_post_attr (JDict [(''legacy'', JDict [(''full_text'', JStr ''hi'')])]) ''text'' text_paths
      = ([], Inr (JStr ''hi''))"
    by code_simp
  from unwraps_before_lookup [of "''text''" 1 wrapped_post
      "JDict [(''legacy'', JDict [(''full_text'', JStr ''hi'')])]" text_paths] e v
  show ?thesis by simp
qed

text \<open>
  C7, as stated, fails in two ways. The type discriminator is answered before the table
  is consulted, so it is returned, without a warning, also when the table does not list
  it; and the wrapper is unwrapped before the table is consulted, so a wrapper whose
  \<open>tweet\<close> is not a dictionary raises \<open>AttributeError\<close>.
\<close>

theorem unknown_attr_counterexample:
  "map_of ([] :: (string \<times> string list) list) ''__typename'' = None
   \<and> get_post_attr (JDict [(''__typename'', JStr ''Tweet'')]) ''__typename'' []
        = ([], Inr (JStr ''Tweet''))
   \<and> map_of ([] :: (string \<times> string list) list) ''lang'' = None
   \<and> get_post_attr broken_wrapper ''lang'' [] = ([], Inl AttributeError)"
  by (intro conjI; code_simp)

text \<open>
  C7, amended. For an attribute other than the type discriminator that the path table
  does not list, on a post object whose unwrapping completes, the extractor logs the one
  warning and returns \<open>None\<close>; it does not raise.
\<close>

theorem unknown_attr_returns_none:
  assumes "attr \<noteq> ''__typename''"
    and "map_of post_attr_paths attr = None"
    and "unwrap post_obj = Inr post"
  shows "get_post_attr post_obj attr post_attr_paths = ([unknown_attr_warning attr], Inr JNone)"
  using assms by (simp add: get_post_attr_def)

theorem unknown_attr_returns_none_witness:
  "''lang'' \<noteq> ''__typename'' \<and> map_of text_paths ''lang'' = None
   \<and> unwrap wrapped_post = Inr (JDict [(''legacy'', JDict [(''full_text'', JStr ''hi'')])])
   \<and> get_post_attr wrapped_post ''lang'' text_paths
       = ([''Unkown attr '' @ [CHR 0x27] @ ''lang'' @ [CHR 0x27] @ ''; skipping extraction.''],
          Inr JNone)"
proof -
  have n: "''lang'' \<noteq> ''__typename''" by simp
  have m: "map_of text_paths ''lang'' = None" by (simp add: text_paths_def)
  have u: "unwrap wrapped_post = Inr (JDict [(''legacy'', JDict [(''full_text'', JStr ''hi'')])])"
    by code_simp
  from unknown_attr_returns_none [OF n m u] n m u
  show ?thesis by (simp add: unknown_attr_warning_def)
qed

text \<open>
  C9. On \<open>{"a": 5}\<close> the candidate path \<open>a.b\<close> raises \<open>AttributeError\<close>: the walk
  reaches the integer and calls its \<open>get\<close>. A path whose first key is missing walks
  through the empty default instead and the result is \<open>None\<close>.
\<close>

theorem scalar_intermediate_raises:
  "get_post_attr (JDict [(''a'', JInt 5)]) ''x'' [(''x'', [''a.b''])] = ([], Inl AttributeError)
   \<and> get_post_attr (JDict [(''a'', JInt 5)]) ''x'' [(''x'', [''c.b''])] = ([], Inr JNone)"
  by (intro conjI; code_simp)

text \<open>
  C10. Requesting \<open>__typename\<close> returns the entry of the outermost dictionary
  (\<open>None\<close> when it has none), whatever the path table holds, and logs nothing; on a
  wrapper the answer is the wrapper's own discriminator, not the inner tweet's.
\<close>

theorem typename_direct:
  "get_post_attr (JDict kvs) ''__typename'' post_attr_paths
     = ([], Inr (case map_of kvs ''__typename'' of None \<Rightarrow> JNone | Some t \<Rightarrow> t))
   \<and> get_post_attr
        (JDict [(''__typename'', JStr ''TweetWithVisibilityResults''),
                (''tweet'', JDict [(''__typename'', JStr ''Tweet'')])])
        ''__typename'' [] = ([], Inr (JStr ''TweetWithVisibilityResults''))"
  by (simp add: get_post_attr_def)

section \<open>Properties of the alert handler\<close>

subsection \<open>Escaping\<close>

lemma str_replace_char:
  "str_replace [c] new s = concat (map (\<lambda>x. if x = c then new else [x]) s)"
proof (induction s)
  case Nil
  show ?case by (simp add: str_replace.simps [of "[c]" new "[]"])
next
  case (Cons x xs)
  then show ?case by (simp add: str_replace.simps [of "[c]" new "x # xs"])
qed

lemma escape_html_Nil: "escape_html [] = []"
  by (simp add: escape_html_def str_replace_char)

lemma escape_html_Cons: "escape_html (c # cs) = entity c @ escape_html cs"
  by (simp add: escape_html_def str_replace_char entity_def)

lemma escape_html_entities: "escape_html s = concat (map entity s)"
  by (induction s) (simp_all add: escape_html_Nil escape_html_Cons)

lemma escape_html_append: "escape_html (xs @ ys) = escape_html xs @ escape_html ys"
  by (simp add: escape_html_entities)

lemma unescape_entity: "unescape_html (entity c @ rest) = c # unescape_html rest"
  by (simp add: entity_def)

lemma unescape_escape: "unescape_html (escape_html s) = s"
  by (induction s) (simp_all add: escape_html_Nil escape_html_Cons unescape_entity)

lemma entity_no_angle: "CHR ''<'' \<notin> set (entity c) \<and> CHR ''>'' \<notin> set (entity c)"
  by (simp add: entity_def)

lemma escape_no_angle: "CHR ''<'' \<notin> set (escape_html s) \<and> CHR ''>'' \<notin> set (escape_html s)"
  using entity_no_angle by (induction s) (simp_all add: escape_html_Nil escape_html_Cons)

text \<open>
  C5. The five replacements, made one after the other, replace each of
  \<open>& < > " '\<close> by its entity and keep every other character; decoding the entities
  gives the text back, so escaping is injective; the escaped text has no angle bracket; a
  \<open><script>\<close> inside a traceback comes out as \<open>&lt;script&gt;\<close>; and the angle
  brackets of a rendered stack-trace block are those of the block's own markup, whatever
  the traceback.
\<close>

theorem escape_html_roundtrip:
  "escape_html s = concat (map (\<lambda>c.
        if c = CHR ''&'' then ''&amp;''
        else if c = CHR ''<'' then ''&lt;''
        else if c = CHR ''>'' then ''&gt;''
        else if c = CHR 0x22 then ''&quot;''
        else if c = CHR 0x27 then ''&#39;''
        else [c]) s)
   \<and> unescape_html (escape_html s) = s
   \<and> inj escape_html
   \<and> CHR ''<'' \<notin> set (escape_html s) \<and> CHR ''>'' \<notin> set (escape_html s)
   \<and> escape_html (before @ ''<script>'' @ after)
        = escape_html before @ ''&lt;script&gt;'' @ escape_html after
   \<and> filter (\<lambda>c. c = CHR ''<'' \<or> c = CHR ''>'') (stack_trace_html s)
        = filter (\<lambda>c. c = CHR ''<'' \<or> c = CHR ''>'') (stack_trace_html [])"
proof (intro conjI)
  show "escape_html s = concat (map (\<lambda>c.
        if c = CHR ''&'' then ''&amp;''
        else if c = CHR ''<'' then ''&lt;''
        else if c = CHR ''>'' then ''&gt;''
        else if c = CHR 0x22 then ''&quot;''
        else if c = CHR 0x27 then ''&#39;''
        else [c]) s)"
    using escape_html_entities [of s] by (simp add: entity_def [abs_def])
  show "unescape_html (escape_html s) = s" by (rule unescape_escape)
  show "inj escape_html" by (rule inj_on_inverseI [of _ unescape_html]) (rule unescape_escape)
  show "CHR ''<'' \<notin> set (escape_html s)" "CHR ''>'' \<notin> set (escape_html s)"
    using escape_no_angle [of s] by simp_all
  show "escape_html (before @ ''<script>'' @ after)
        = escape_html before @ ''&lt;script&gt;'' @ escape_html after"
    by (simp add: escape_html_append escape_html_Cons escape_html_Nil entity_def)
  have "filter (\<lambda>c. c = CHR ''<'' \<or> c = CHR ''>'') (escape_html s) = []"
    using escape_no_angle [of s] by (auto simp: filter_empty_conv)
  then show "filter (\<lambda>c. c = CHR ''<'' \<or> c = CHR ''>'') (stack_trace_html s)
        = filter (\<lambda>c. c = CHR ''<'' \<or> c = CHR ''>'') (stack_trace_html [])"
    by (simp add: stack_trace_html_def escape_html_Nil)
qed

subsection \<open>The lock\<close>

lemma acquire_free: "\<not> batch_lock h \<Longrightarrow>
    acquire h = Returns (h\<lparr>batch_lock := True, events := events h @ [LockAcquire]\<rparr>)"
  by (simp add: acquire_def)

lemma acquire_held: "batch_lock h \<Longrightarrow> acquire h = Blocks h"
  by (simp add: acquire_def)

lemma send_batch_held: "batch_lock h \<Longrightarrow> send_batch h wait = Blocks h"
  by (simp add: send_batch_def acquire_held)

lemma send_batch_empty:
  "\<not> batch_lock h \<Longrightarrow> error_queue h = [] \<Longrightarrow>
     send_batch h wait = Returns (h\<lparr>events := events h @ [LockAcquire, LockRelease]\<rparr>)"
  by (simp add: send_batch_def acquire_free release_def)

lemma send_batch_nonempty:
  "\<not> batch_lock h \<Longrightarrow> error_queue h \<noteq> [] \<Longrightarrow>
     send_batch h wait = Returns (h\<lparr>error_queue := [],
        threads := threads h @ [\<lparr>batch = error_queue h, daemon = \<not> wait\<rparr>],
        events := events h @ (if wait then [LockAcquire, ThreadStart, ThreadJoin, LockRelease]
                              else [LockAcquire, ThreadStart, LockRelease])\<rparr>)"
  by (simp add: send_batch_def acquire_free release_def Let_def)

lemma emit_below_limit:
  "\<not> batch_lock h \<Longrightarrow> \<not> limit_reached (h\<lparr>error_queue := error_queue h @ [r]\<rparr>) \<Longrightarrow>
     emit h r = Returns (h\<lparr>error_queue := error_queue h @ [r],
                           events := events h @ [LockAcquire, LockRelease]\<rparr>)"
  by (auto simp add: emit_def acquire_free release_def Let_def limit_reached_def
      split: option.splits)

lemma emit_at_limit:
  "\<not> batch_lock h \<Longrightarrow> limit_reached (h\<lparr>error_queue := error_queue h @ [r]\<rparr>) \<Longrightarrow>
     emit h r = Blocks (h\<lparr>error_queue := error_queue h @ [r], batch_lock := True,
                          events := events h @ [LockAcquire]\<rparr>)"
  by (simp add: emit_def acquire_free Let_def limit_reached_def send_batch_held
      split: option.splits)

lemma emit_held: "batch_lock h \<Longrightarrow> emit h r = Blocks h"
  by (simp add: emit_def acquire_held)

lemma flush_free:
  "\<not> batch_lock h \<Longrightarrow>
     flush h = Returns (if error_queue h = [] then h
        else h\<lparr>error_queue := [],
               threads := threads h @ [\<lparr>batch = error_queue h, daemon = False\<rparr>],
               events := events h @ [LockAcquire, ThreadStart, ThreadJoin, LockRelease]\<rparr>)"
  by (simp add: flush_def send_batch_nonempty)

subsection \<open>Batching\<close>

text \<open>
  With no limit set, any number of records is queued and no sender thread is started.
\<close>

lemma emits_unlimited:
  "\<not> batch_lock h \<Longrightarrow> max_batch_size h = None \<Longrightarrow>
     \<exists>h'. emits h rs = Returns h' \<and> error_queue h' = error_queue h @ rs
        \<and> threads h' = threads h \<and> \<not> batch_lock h' \<and> max_batch_size h' = None"
proof (induction rs arbitrary: h)
  case Nil
  then show ?case by simp
next
  case (Cons r rs)
  let ?h1 = "h\<lparr>error_queue := error_queue h @ [r], events := events h @ [LockAcquire, LockRelease]\<rparr>"
  from Cons.prems have e: "emit h r = Returns ?h1"
    by (intro emit_below_limit) (simp_all add: limit_reached_def)
  from Cons.prems have "\<not> batch_lock ?h1" "max_batch_size ?h1 = None" by simp_all
  from Cons.IH [OF this] e show ?case by auto
qed

text \<open>
  With a limit \<open>L > 0\<close>, the emit that brings the queue to \<open>L\<close> records blocks: it
  calls \<open>_send_batch\<close> while it holds the lock that \<open>_send_batch\<close> takes first. No
  sender thread has been started by then.
\<close>

lemma emits_limit_blocks:
  "\<not> batch_lock h \<Longrightarrow> max_batch_size h = Some L \<Longrightarrow> 0 < L \<Longrightarrow>
   int (length (error_queue h)) < L \<Longrightarrow> L \<le> int (length (error_queue h) + length rs) \<Longrightarrow>
     \<exists>b. emits h rs = Blocks b \<and> threads b = threads h \<and> batch_lock b
        \<and> error_queue b = error_queue h @ take (nat L - length (error_queue h)) rs"
proof (induction rs arbitrary: h)
  case Nil
  then show ?case by simp
next
  case (Cons r rs)
  show ?case
  proof (cases "L \<le> int (length (error_queue h)) + 1")
    case True
    with Cons.prems have lim: "limit_reached (h\<lparr>error_queue := error_queue h @ [r]\<rparr>)"
      by (simp add: limit_reached_def)
    from True Cons.prems have "nat L - length (error_queue h) = 1" by linarith
    with emit_at_limit [OF Cons.prems(1) lim] show ?thesis by simp
  next
    case False
    let ?h1 = "h\<lparr>error_queue := error_queue h @ [r], events := events h @ [LockAcquire, LockRelease]\<rparr>"
    from False Cons.prems have e: "emit h r = Returns ?h1"
      by (intro emit_below_limit) (simp_all add: limit_reached_def)
    from False Cons.prems have p: "\<not> batch_lock ?h1" "max_batch_size ?h1 = Some L" "0 < L"
      "int (length (error_queue ?h1)) < L"
      "L \<le> int (length (error_queue ?h1) + length rs)"
      by simp_all
    from False Cons.prems
    have "nat L - length (error_queue h) = Suc (nat L - length (error_queue ?h1))"
      by simp
    with Cons.IH [OF p] e show ?thesis by auto
  qed
qed

text \<open>
  C2. With \<open>max_batch_size = 2\<close>, emitting three records does not complete: the second
  \<open>emit\<close> reaches the limit and blocks on the lock it already holds, with both records
  still queued and no batch dispatched; the third is never made.
\<close>

theorem emit_at_limit_blocks:
  "emits (alert_handler (Some 2)) [rec1, rec2, rec3]
     = Blocks ((alert_handler (Some 2))\<lparr>error_queue := [rec1, rec2], batch_lock := True,
          events := [LockAcquire, LockRelease, LockAcquire]\<rparr>)
   \<and> threads (state_of (emits (alert_handler (Some 2)) [rec1, rec2, rec3])) = []"
  by (simp add: alert_handler_def EmailHandler_def emit_def acquire_def release_def
      limit_reached_def send_batch_def Let_def)

text \<open>
  C3, as stated, fails: flushing a handler with one queued record takes the lock, starts
  the sender thread and joins it before the lock is released.
\<close>

theorem flush_joins_under_lock:
  "flush ((alert_handler None)\<lparr>error_queue := [rec1]\<rparr>)
     = Returns ((alert_handler None)\<lparr>error_queue := [],
          threads := [\<lparr>batch = [rec1], daemon = False\<rparr>],
          events := [LockAcquire, ThreadStart, ThreadJoin, LockRelease]\<rparr>)
   \<and> join_under_lock False [LockAcquire, ThreadStart, ThreadJoin, LockRelease]"
  by (simp add: alert_handler_def EmailHandler_def flush_def send_batch_def acquire_def
      release_def Let_def)

text \<open>
  C3, amended. Called with the lock free, \<open>_send_batch\<close> returns, and between taking
  and releasing the lock it does this: nothing on an empty queue; with \<open>wait\<close> false,
  the detaching of the queue and the start of the sender thread, with no wait for it; with
  \<open>wait\<close> true, as in \<open>flush\<close> and \<open>close\<close>, also the join of the sender
  thread. So the lock is held during the wait for the send exactly when \<open>wait\<close> is
  true and the queue is not empty.
\<close>

theorem send_batch_lock_span:
  assumes "\<not> batch_lock h"
  shows "\<exists>h'. send_batch h wait = Returns h' \<and> \<not> batch_lock h'
    \<and> events h' = events h @
         (if error_queue h = [] then [LockAcquire, LockRelease]
          else if wait then [LockAcquire, ThreadStart, ThreadJoin, LockRelease]
          else [LockAcquire, ThreadStart, LockRelease])
    \<and> join_under_lock False (drop (length (events h)) (events h'))
         = (wait \<and> error_queue h \<noteq> [])"
proof (cases "error_queue h = []")
  case True
  with assms show ?thesis by (simp add: send_batch_empty)
next
  case False
  with assms show ?thesis by (simp add: send_batch_nonempty)
qed

theorem send_batch_lock_span_witness:
  "\<not> batch_lock ((alert_handler None)\<lparr>error_queue := [rec1]\<rparr>)
   \<and> (\<exists>h'. send_batch ((alert_handler None)\<lparr>error_queue := [rec1]\<rparr>) True = Returns h'
        \<and> events h' = [LockAcquire, ThreadStart, ThreadJoin, LockRelease]
        \<and> join_under_lock False (events h'))
   \<and> (\<exists>h'. send_batch ((alert_handler None)\<lparr>error_queue := [rec1]\<rparr>) False = Returns h'
        \<and> events h' = [LockAcquire, ThreadStart, LockRelease]
        \<and> \<not> join_under_lock False (events h'))"
proof -
  let ?h = "(alert_handler None)\<lparr>error_queue := [rec1]\<rparr>"
  have f: "\<not> batch_lock ?h" by (simp add: alert_handler_def EmailHandler_def)
  have e: "events ?h = []" "error_queue ?h \<noteq> []"
    by (simp_all add: alert_handler_def EmailHandler_def)
  from send_batch_lock_span [OF f, of True] e
  have t: "\<exists>h'. send_batch ?h True = Returns h'
        \<and> events h' = [LockAcquire, ThreadStart, ThreadJoin, LockRelease]
        \<and> join_under_lock False (events h')"
    by auto
  from send_batch_lock_span [OF f, of False] e
  have n: "\<exists>h'. send_batch ?h False = Returns h'
        \<and> events h' = [LockAcquire, ThreadStart, LockRelease]
        \<and> \<not> join_under_lock False (events h')"
    by auto
  from f t n show ?thesis by simp
qed

subsection \<open>Flushing\<close>

lemma emit_outcome:
  "\<not> batch_lock h \<Longrightarrow>
     error_queue (state_of (emit h r)) = error_queue h @ [r]
     \<and> threads (state_of (emit h r)) = threads h"
  by (cases "limit_reached (h\<lparr>error_queue := error_queue h @ [r]\<rparr>)")
    (simp_all add: emit_below_limit emit_at_limit)

text \<open>
  A call that returns leaves the lock free, and the records dispatched and queued after it
  are those before it with the emitted record, if any, at the end.
\<close>

lemma emit_returns_free:
  "\<not> batch_lock h \<Longrightarrow> emit h r = Returns h' \<Longrightarrow>
     \<not> batch_lock h' \<and> dispatched h' @ error_queue h' = dispatched h @ error_queue h @ [r]"
  by (cases "limit_reached (h\<lparr>error_queue := error_queue h @ [r]\<rparr>)")
    (auto simp add: emit_below_limit emit_at_limit dispatched_def)

lemma flush_returns_free:
  "\<not> batch_lock h \<Longrightarrow> flush h = Returns h' \<Longrightarrow>
     \<not> batch_lock h' \<and> dispatched h' @ error_queue h' = dispatched h @ error_queue h"
  by (auto simp add: flush_free dispatched_def split: if_splits)

lemma calls_conserve:
  "\<not> batch_lock h \<Longrightarrow> calls h cs = Returns h' \<Longrightarrow>
     dispatched h' @ error_queue h' = dispatched h @ error_queue h @ emitted cs"
proof (induction cs arbitrary: h)
  case Nil
  then show ?case by simp
next
  case (Cons c cs)
  show ?case
  proof (cases c)
    case (Emit r)
    with Cons.prems obtain h1 where e: "emit h r = Returns h1" and r: "calls h1 cs = Returns h'"
      by (auto split: outcome.splits)
    from emit_returns_free [OF Cons.prems(1) e] Cons.IH [OF _ r] Emit show ?thesis by simp
  next
    case Flush
    with Cons.prems obtain h1 where e: "flush h = Returns h1" and r: "calls h1 cs = Returns h'"
      by (auto split: outcome.splits)
    from flush_returns_free [OF Cons.prems(1) e] Cons.IH [OF _ r] Flush show ?thesis by simp
  next
    case Close
    with Cons.prems obtain h1 where e: "flush h = Returns h1" and r: "calls h1 cs = Returns h'"
      by (auto simp: close_def split: outcome.splits)
    from flush_returns_free [OF Cons.prems(1) e] Cons.IH [OF _ r] Close show ?thesis by simp
  qed
qed

text \<open>
  C4. On a handler whose lock is free, \<open>flush\<close> returns; the queue is then empty and
  the lock free; the batches handed to sender threads are those before, followed, if the
  queue was not empty, by one batch that is exactly the queue as it was. An \<open>emit\<close>
  made next finds the empty queue and leaves the one record in it, and changes no sender
  thread. Over any calls that return, the records dispatched and queued are the records
  emitted, each once and in order.
\<close>

theorem flush_detaches:
  assumes "\<not> batch_lock h"
  shows "\<exists>h'. flush h = Returns h' \<and> error_queue h' = [] \<and> \<not> batch_lock h'
      \<and> map batch (threads h') =
           map batch (threads h) @ (if error_queue h = [] then [] else [error_queue h])
      \<and> error_queue (state_of (emit h' r)) = [r]
      \<and> threads (state_of (emit h' r)) = threads h'
      \<and> (calls h cs = Returns h2 \<longrightarrow>
           dispatched h2 @ error_queue h2 = dispatched h @ error_queue h @ emitted cs)"
proof -
  let ?h' = "if error_queue h = [] then h
        else h\<lparr>error_queue := [],
               threads := threads h @ [\<lparr>batch = error_queue h, daemon = False\<rparr>],
               events := events h @ [LockAcquire, ThreadStart, ThreadJoin, LockRelease]\<rparr>"
  have 1: "flush h = Returns ?h'" by (rule flush_free [OF assms])
  have 2: "error_queue ?h' = []" "\<not> batch_lock ?h'" using assms by simp_all
  have 3: "map batch (threads ?h') =
           map batch (threads h) @ (if error_queue h = [] then [] else [error_queue h])"
    by simp
  from emit_outcome [OF 2(2), of r] 2(1)
  have 4: "error_queue (state_of (emit ?h' r)) = [r]" "threads (state_of (emit ?h' r)) = threads ?h'"
    by simp_all
  have 5: "calls h cs = Returns h2 \<longrightarrow>
           dispatched h2 @ error_queue h2 = dispatched h @ error_queue h @ emitted cs"
    using calls_conserve [OF assms] by blast
  from 1 2 3 4 5 show ?thesis by blast
qed

theorem flush_detaches_witness:
  "\<not> batch_lock ((alert_handler None)\<lparr>error_queue := [rec1, rec2]\<rparr>)
   \<and> calls ((alert_handler None)\<lparr>error_queue := [rec1, rec2]\<rparr>) [Flush, Emit rec3]
      = Returns ((alert_handler None)\<lparr>error_queue := [rec3],
          threads := [\<lparr>batch = [rec1, rec2], daemon = False\<rparr>],
          events := [LockAcquire, ThreadStart, ThreadJoin, LockRelease,
                     LockAcquire, LockRelease]\<rparr>)
   \<and> (\<exists>h'. flush ((alert_handler None)\<lparr>error_queue := [rec1, rec2]\<rparr>) = Returns h'
         \<and> error_queue h' = [] \<and> map batch (threads h') = [[rec1, rec2]]
         \<and> error_queue (state_of (emit h' rec3)) = [rec3]
         \<and> threads (state_of (emit h' rec3)) = threads h')"
proof -
  let ?h = "(alert_handler None)\<lparr>error_queue := [rec1, rec2]\<rparr>"
  let ?h2 = "(alert_handler None)\<lparr>error_queue := [rec3],
          threads := [\<lparr>batch = [rec1, rec2], daemon = False\<rparr>],
          events := [LockAcquire, ThreadStart, ThreadJoin, LockRelease,
                     LockAcquire, LockRelease]\<rparr>"
  have f: "\<not> batch_lock ?h" by (simp add: alert_handler_def EmailHandler_def)
  have c: "calls ?h [Flush, Emit rec3] = Returns ?h2"
    by (simp add: alert_handler_def EmailHandler_def flush_def send_batch_def acquire_def
      release_def emit_def limit_reached_def Let_def)
  have t: "map batch (threads ?h) = []" "error_queue ?h = [rec1, rec2]"
    by (simp_all add: alert_handler_def EmailHandler_def)
  from flush_detaches [OF f, of rec3 "[Flush, Emit rec3]" ?h2]
  obtain h' where h: "flush ?h = Returns h'" "error_queue h' = []"
      "map batch (threads h') =
         map batch (threads ?h) @ (if error_queue ?h = [] then [] else [error_queue ?h])"
      "error_queue (state_of (emit h' rec3)) = [rec3]"
      "threads (state_of (emit h' rec3)) = threads h'"
    by blast
  from h(3) t have m: "map batch (threads h') = [[rec1, rec2]]" by simp
  have "\<exists>h'. flush ?h = Returns h'
         \<and> error_queue h' = [] \<and> map batch (threads h') = [[rec1, rec2]]
         \<and> error_queue (state_of (emit h' rec3)) = [rec3]
         \<and> threads (state_of (emit h' rec3)) = threads h'"
    by (rule exI [of _ h']) (simp add: h(1,2,4,5) m)
  with f c show ?thesis by simp
qed

subsection \<open>A send that fails\<close>

text \<open>
  Whatever the batch: when the password file cannot be read, or the SMTP session fails,
  with an \<open>Exception\<close>, the sender thread ends normally; the text of the exception has
  gone to the standard output, and neither the standard error stream nor the delivered
  messages have changed.
\<close>

lemma read_failure_caught:
  assumes "read_text e (pwdfile h) = Inl (Exception x)"
  shows "send_email_batch e h records w
     = (w\<lparr>stdout := stdout w @ ''EmailHandler failed to send: '' @ x @ NL\<rparr>, None)"
  using assms by (simp add: send_email_batch_def send_html_alert_def Let_def)

lemma smtp_failure_caught:
  assumes "read_text e (pwdfile h) = Inr secret"
    and "\<And>msg. smtp_session e (smtp_server h) (smtp_port h) (from_addr h) (strip secret) msg
           = Some (Exception x)"
  shows "send_email_batch e h records w
     = (w\<lparr>stdout := stdout w @ ''EmailHandler failed to send: '' @ x @ NL\<rparr>, None)"
  using assms by (simp add: send_email_batch_def send_html_alert_def Let_def)

text \<open>
  C8. A batch of one record, sent while the server refuses the connection: the sender
  thread ends without an exception and nothing is delivered, and the report
  \<open>EmailHandler failed to send: Connection refused\<close> is written to the standard
  output; the standard error stream stays empty.
\<close>

theorem send_failure_printed_to_stdout:
  "send_email_batch refusing_env (alert_handler None) [rec1] quiet_world
     = (\<lparr>outbox = [], stdout = ''EmailHandler failed to send: Connection refused'' @ NL,
         stderr = []\<rparr>, None)"
  by (simp add: send_email_batch_def send_html_alert_def refusing_env_def quiet_world_def
      alert_handler_def EmailHandler_def Let_def)

end
